theory Spec2Isabelle
  imports Complex_Main
begin

section \<open>Data model of engine/core.py\<close>

text \<open>
  The layer classes live in the storage package, outside engine/core.py. A layer is
  modelled by the attributes and methods that core.py reads from it. An attribute that a
  layer object may lack (\<open>rows\<close> and \<open>columns\<close> are raster-only) is an option: reading
  it from an object without it raises AttributeError in Python. The projection, the
  geotransform and the geometry are values of types \<open>'p\<close>, \<open>'g\<close> and \<open>'c\<close> that
  core.py only compares, the first with \<open>==\<close> and the other two with numpy.allclose.
\<close>

record ('p, 'g, 'c) layer =
  name :: string
  get_keywords :: "string \<rightharpoonup> string"
  projection :: 'p
  is_raster :: bool
  is_vector :: bool
  rows :: "int option"
  columns :: "int option"
  get_geotransform :: 'g
  get_geometry :: 'c
  len :: nat

text \<open>
  Every exception that core.py can raise is a value. The assertions of
  \<open>check_data_integrity\<close> all raise AssertionError; they are told apart here by the
  condition that failed, with the values their message is formatted from.
\<close>

datatype ('p, 'g, 'c) error =
    MissingKeyword string string
  | EmptyKeyword string string
  | ProjectionMismatch string 'p 'p
  | GeotransformMismatch 'g 'g
  | CoordinateMismatch 'c 'c
  | EmptyVectorLayer string
  | RowsMismatch string int string int
  | ColumnsMismatch string int string int
  | IndexError
  | AttributeError string
  | ValueError
  | NullResult string
  | PersistenceError string
  | NotASpatialObject string
  | InvalidBoundingBox
  | OverlapError string
  | ExternalError string

section \<open>numpy.allclose\<close>

text \<open>
  \<open>check_data_integrity\<close> calls numpy.allclose twice: on two geotransforms with
  \<open>rtol=1.0e-12\<close>, and on two geometries with the default tolerances. numpy is a library
  outside the repository and computes in double precision, so its two uses are
  parameters: \<open>allclose_rtol rtol a b\<close> is \<open>numpy.allclose(a, b, rtol=rtol)\<close> on
  geotransforms, and \<open>allclose a b\<close> is \<open>numpy.allclose(a, b)\<close> on geometries, None when
  numpy raises (shapes that cannot be broadcast). The values \<open>'g\<close> of a geotransform and
  \<open>'c\<close> of a geometry are whatever the layers hold.
\<close>

record ('g, 'c) numpy =
  allclose_rtol :: "real \<Rightarrow> 'g \<Rightarrow> 'g \<Rightarrow> bool"
  allclose :: "'c \<Rightarrow> 'c \<Rightarrow> bool option"

section \<open>check_data_integrity\<close>

text \<open>The three local variables that the loop over the layers updates.\<close>

record ('p, 'g, 'c) refs =
  reference_projection :: "'p option"
  geotransform :: "'g option"
  coordinates :: "'c option"

text \<open>The inner loop over REQUIRED_KEYWORDS, for one layer.\<close>

fun check_keywords :: "string list \<Rightarrow> ('p, 'g, 'c) layer \<Rightarrow> ('p, 'g, 'c) error + unit" where
  "check_keywords [] l = Inr ()"
| "check_keywords (kw # kws) l =
     (case get_keywords l kw of
        None \<Rightarrow> Inl (MissingKeyword (name l) kw)
      | Some val \<Rightarrow>
          if val = [] then Inl (EmptyKeyword kw (name l))
          else check_keywords kws l)"

definition check_projection ::
  "('p, 'g, 'c) refs \<Rightarrow> ('p, 'g, 'c) layer \<Rightarrow> ('p, 'g, 'c) error + ('p, 'g, 'c) refs" where
  "check_projection st l =
     (case reference_projection st of
        None \<Rightarrow> Inr (st\<lparr>reference_projection := Some (projection l)\<rparr>)
      | Some rp \<Rightarrow>
          if rp = projection l then Inr st
          else Inl (ProjectionMismatch (name l) (projection l) rp))"

definition check_geotransform ::
  "('g, 'c) numpy \<Rightarrow> ('p, 'g, 'c) refs \<Rightarrow> ('p, 'g, 'c) layer \<Rightarrow>
   ('p, 'g, 'c) error + ('p, 'g, 'c) refs" where
  "check_geotransform np st l =
     (if is_raster l then
        (case geotransform st of
           None \<Rightarrow> Inr (st\<lparr>geotransform := Some (get_geotransform l)\<rparr>)
         | Some g \<Rightarrow>
             if allclose_rtol np (1 / 10 ^ 12) g (get_geotransform l)
             then Inr st
             else Inl (GeotransformMismatch g (get_geotransform l)))
      else Inr st)"

definition check_coordinates ::
  "('g, 'c) numpy \<Rightarrow> ('p, 'g, 'c) refs \<Rightarrow> ('p, 'g, 'c) layer \<Rightarrow>
   ('p, 'g, 'c) error + ('p, 'g, 'c) refs" where
  "check_coordinates np st l =
     (if is_vector l then
        (case (case coordinates st of
                 None \<Rightarrow> Inr (st\<lparr>coordinates := Some (get_geometry l)\<rparr>)
               | Some c \<Rightarrow>
                   (case allclose np c (get_geometry l) of
                      None \<Rightarrow> Inl ValueError
                    | Some ok \<Rightarrow>
                        if ok then Inr st
                        else Inl (CoordinateMismatch c (get_geometry l)))) of
           Inl e \<Rightarrow> Inl e
         | Inr st' \<Rightarrow>
             if len l > 0 then Inr st' else Inl (EmptyVectorLayer (name l)))
      else Inr st)"

text \<open>The body of the first loop, for one layer.\<close>

definition check_layer ::
  "('g, 'c) numpy \<Rightarrow> string list \<Rightarrow> ('p, 'g, 'c) refs \<Rightarrow> ('p, 'g, 'c) layer \<Rightarrow>
   ('p, 'g, 'c) error + ('p, 'g, 'c) refs" where
  "check_layer np rk st l =
     (case check_keywords rk l of
        Inl e \<Rightarrow> Inl e
      | Inr _ \<Rightarrow>
          (case check_projection st l of
             Inl e \<Rightarrow> Inl e
           | Inr st1 \<Rightarrow>
               (case check_geotransform np st1 l of
                  Inl e \<Rightarrow> Inl e
                | Inr st2 \<Rightarrow> check_coordinates np st2 l)))"

fun check_layers ::
  "('g, 'c) numpy \<Rightarrow> string list \<Rightarrow> ('p, 'g, 'c) refs \<Rightarrow> ('p, 'g, 'c) layer list \<Rightarrow>
   ('p, 'g, 'c) error + ('p, 'g, 'c) refs" where
  "check_layers np rk st [] = Inr st"
| "check_layers np rk st (l # ls) =
     (case check_layer np rk st l of
        Inl e \<Rightarrow> Inl e
      | Inr st' \<Rightarrow> check_layers np rk st' ls)"

text \<open>The second loop: every raster layer against the rows and columns of the first layer.\<close>

fun check_aligned ::
  "int \<Rightarrow> int \<Rightarrow> string \<Rightarrow> ('p, 'g, 'c) layer list \<Rightarrow> ('p, 'g, 'c) error + unit" where
  "check_aligned M N refname [] = Inr ()"
| "check_aligned M N refname (l # ls) =
     (if is_raster l then
        (case rows l of
           None \<Rightarrow> Inl (AttributeError ''rows'')
         | Some r \<Rightarrow>
             if r \<noteq> M then Inl (RowsMismatch (name l) r refname M)
             else
               (case columns l of
                  None \<Rightarrow> Inl (AttributeError ''columns'')
                | Some c \<Rightarrow>
                    if c \<noteq> N then Inl (ColumnsMismatch (name l) c refname N)
                    else check_aligned M N refname ls))
      else check_aligned M N refname ls)"

definition initial_refs :: "'p \<Rightarrow> ('p, 'g, 'c) refs" where
  "initial_refs dp = \<lparr>reference_projection = Some dp, geotransform = None, coordinates = None\<rparr>"

text \<open>
  The states in which the body of the first loop is entered, one per layer that the loop
  reaches.
\<close>

fun visited ::
  "('g, 'c) numpy \<Rightarrow> string list \<Rightarrow> ('p, 'g, 'c) refs \<Rightarrow> ('p, 'g, 'c) layer list \<Rightarrow>
   ('p, 'g, 'c) refs list" where
  "visited np rk st [] = []"
| "visited np rk st (l # ls) =
     st # (case check_layer np rk st l of Inl e \<Rightarrow> [] | Inr st' \<Rightarrow> visited np rk st' ls)"

text \<open>Lines 165 to 185: the reads of \<open>layer_files[0]\<close> and the second loop.\<close>

definition check_alignment :: "('p, 'g, 'c) layer list \<Rightarrow> ('p, 'g, 'c) error + unit" where
  "check_alignment layer_files =
     (case layer_files of
        [] \<Rightarrow> Inl IndexError
      | l0 # _ \<Rightarrow>
          (case rows l0 of
             None \<Rightarrow> Inl (AttributeError ''rows'')
           | Some M \<Rightarrow>
               (case columns l0 of
                  None \<Rightarrow> Inl (AttributeError ''columns'')
                | Some N \<Rightarrow> check_aligned M N (name l0) layer_files)))"

text \<open>
  \<open>rk\<close> is REQUIRED_KEYWORDS and \<open>dp\<close> is Projection(DEFAULT_PROJECTION); both are
  imported by core.py and are parameters here, as is \<open>np\<close>, the two uses of
  numpy.allclose.
\<close>

definition check_data_integrity ::
  "('g, 'c) numpy \<Rightarrow> string list \<Rightarrow> 'p \<Rightarrow> ('p, 'g, 'c) layer list \<Rightarrow>
   ('p, 'g, 'c) error + unit" where
  "check_data_integrity np rk dp layer_files =
     (case check_layers np rk (initial_refs dp) layer_files of
        Inl e \<Rightarrow> Inl e
      | Inr _ \<Rightarrow> check_alignment layer_files)"

section \<open>calculate_impact\<close>

text \<open>
  The result layer \<open>F\<close> that the plugin returns, with the attributes that
  \<open>calculate_impact\<close> reads and writes. \<open>get_name\<close> may return None or the empty
  string; both are false in Python.
\<close>

record impact_result =
  result_is_raster :: bool
  result_filename :: "string option"
  result_name :: "string option"

text \<open>
  The object that \<open>impact_fcn()\<close> returns: its \<open>run\<close> method (None is Python's None), its
  \<open>plugin_name\<close> attribute when it has one, and what \<open>str\<close> gives for it.
\<close>

record ('p, 'g, 'c) impact_function =
  run :: "('p, 'g, 'c) layer list \<Rightarrow> impact_result option"
  plugin_name :: "string option"
  function_str :: string

text \<open>
  The calls that \<open>calculate_impact\<close> makes to its collaborators, in the order in which it
  makes them. \<open>WriteToFile\<close> records the path and the result object as it is when it is
  written.
\<close>

datatype event =
    Instantiate
  | Run
  | UniqueFilename string
  | WriteToFile string impact_result
  | SetName string

definition name_unset :: "string option \<Rightarrow> bool" where
  "name_unset n = (n = None \<or> n = Some [])"

text \<open>The loop of lines 74 to 76.\<close>

fun join_names :: "string \<Rightarrow> ('p, 'g, 'c) layer list \<Rightarrow> string" where
  "join_names default_name [] = default_name"
| "join_names default_name (l # ls) = join_names (default_name @ name l @ '' X '') ls"

text \<open>Lines 74 to 82; \<open>default_name[:-2]\<close> drops the last two characters.\<close>

definition default_name_of ::
  "('p, 'g, 'c) layer list \<Rightarrow> ('p, 'g, 'c) impact_function \<Rightarrow> string" where
  "default_name_of layers f =
     (let default_name = join_names [] layers in
      case plugin_name f of
        Some pn \<Rightarrow> default_name @ pn
      | None \<Rightarrow> take (length default_name - 2) default_name)"

text \<open>
  \<open>unique_filename\<close> and the \<open>write_to_file\<close> method of the result are collaborators:
  \<open>uf\<close> maps the suffix to the file name, and \<open>wtf F path\<close> tells whether the write
  succeeds. The function returns the calls it made and its outcome.
\<close>

definition calculate_impact ::
  "('g, 'c) numpy \<Rightarrow> string list \<Rightarrow> 'p \<Rightarrow> (string \<Rightarrow> string) \<Rightarrow> (impact_result \<Rightarrow> string \<Rightarrow> bool) \<Rightarrow>
   ('p, 'g, 'c) layer list \<Rightarrow> ('p, 'g, 'c) impact_function \<Rightarrow> event list \<times> (('p, 'g, 'c) error + impact_result)" where
  "calculate_impact np rk dp uf wtf layers impact_function =
     (case check_data_integrity np rk dp layers of
        Inl e \<Rightarrow> ([], Inl e)
      | Inr _ \<Rightarrow>
          (case run impact_function layers of
             None \<Rightarrow> ([Instantiate, Run], Inl (NullResult (function_str impact_function)))
           | Some F0 \<Rightarrow>
               (let extension = (if result_is_raster F0 then ''.tif'' else ''.shp'');
                    output_filename = uf extension;
                    F = F0\<lparr>result_filename := Some output_filename\<rparr>;
                    calls = [Instantiate, Run, UniqueFilename extension,
                             WriteToFile output_filename F]
                in if \<not> wtf F output_filename
                   then (calls, Inl (PersistenceError output_filename))
                   else if name_unset (result_name F)
                   then (let default_name = default_name_of layers impact_function
                         in (calls @ [SetName default_name],
                             Inr (F\<lparr>result_name := Some default_name\<rparr>)))
                   else (calls, Inr F))))"

section \<open>get_bounding_boxes\<close>

text \<open>
  What \<open>get_bounding_boxes\<close> reads from a hazard or exposure object:
  \<open>is_riab_spatial_object\<close> is None when the object has no such attribute.
\<close>

record spatial =
  is_riab_spatial_object :: "bool option"
  get_bounding_box :: "real list"
  object_str :: string

datatype layer_data = Filename string | Object spatial

text \<open>The argument \<open>req_bbox\<close>: \<open>list(req_bbox)\<close> raises when it is not iterable.\<close>

datatype bbox_arg = NotIterable | Sequence "real list"

datatype call =
    ReadLayer string
  | BboxIntersection "real list" "real list" "real list"

definition resolve_layer ::
  "(string \<Rightarrow> ('p, 'g, 'c) error + spatial) \<Rightarrow> layer_data \<Rightarrow> call list \<times> (('p, 'g, 'c) error + spatial)" where
  "resolve_layer read_layer d =
     (case (case d of
              Filename fn \<Rightarrow> ([ReadLayer fn], read_layer fn)
            | Object obj \<Rightarrow> ([], Inr obj)) of
        (cs, Inl e) \<Rightarrow> (cs, Inl e)
      | (cs, Inr layer) \<Rightarrow>
          if is_riab_spatial_object layer = Some True then (cs, Inr layer)
          else (cs, Inl (NotASpatialObject (object_str layer))))"

definition overlap_message :: "string \<Rightarrow> string \<Rightarrow> string \<Rightarrow> string" where
  "overlap_message haz expo vpt =
     ''Bounding boxes of hazard data ['' @ haz @ ''], exposure data ['' @ expo @
     ''] and viewport ['' @ vpt @ ''] did not overlap, so no computation was '' @
     ''done. Please make sure you pan to where the data is and '' @
     ''that hazard and exposure data overlaps.''"

text \<open>
  \<open>read_layer\<close>, \<open>bbox_intersection\<close> and \<open>bboxlist2string\<close> (called with decimals=3)
  are imported from the storage package and are parameters. An exception raised inside
  \<open>bbox_intersection\<close> propagates.
\<close>

definition get_bounding_boxes ::
  "(string \<Rightarrow> ('p, 'g, 'c) error + spatial) \<Rightarrow>
   (real list \<Rightarrow> real list \<Rightarrow> real list \<Rightarrow> ('p, 'g, 'c) error + real list option) \<Rightarrow>
   (real list \<Rightarrow> string) \<Rightarrow>
   layer_data \<Rightarrow> layer_data \<Rightarrow> bbox_arg \<Rightarrow>
   call list \<times> (('p, 'g, 'c) error + real list \<times> unit option)" where
  "get_bounding_boxes read_layer bbox_intersection bboxlist2string haz_data exp_data req_bbox =
     (case resolve_layer read_layer haz_data of
        (c1, Inl e) \<Rightarrow> (c1, Inl e)
      | (c1, Inr haz_layer) \<Rightarrow>
          (case resolve_layer read_layer exp_data of
             (c2, Inl e) \<Rightarrow> (c1 @ c2, Inl e)
           | (c2, Inr exp_layer) \<Rightarrow>
               (case req_bbox of
                  NotIterable \<Rightarrow> (c1 @ c2, Inl InvalidBoundingBox)
                | Sequence vpt_bbox \<Rightarrow>
                    (let haz_bbox = get_bounding_box haz_layer;
                         exp_bbox = get_bounding_box exp_layer;
                         cs = c1 @ c2 @ [BboxIntersection vpt_bbox haz_bbox exp_bbox]
                     in case bbox_intersection vpt_bbox haz_bbox exp_bbox of
                          Inl e \<Rightarrow> (cs, Inl e)
                        | Inr None \<Rightarrow>
                            (cs, Inl (OverlapError
                               (overlap_message (bboxlist2string haz_bbox)
                                  (bboxlist2string exp_bbox) (bboxlist2string vpt_bbox))))
                        | Inr (Some intersection_bbox) \<Rightarrow>
                            (cs, Inr (intersection_bbox, None))))))"

section \<open>bbox_intersection\<close>

text \<open>
  Modelled from the spec: \<open>bbox_intersection\<close> of storage.utilities is imported by core.py
  and is not among the sources. Section 4.2 of the specification, steps 4 and 5: the
  intersection of the three boxes has the largest west and south and the smallest east
  and north, and there is no overlap when west is not below east or south is not below
  north. The four coordinates of a box are read by position; reading them from a shorter
  sequence raises IndexError.
\<close>

fun box4 :: "real list \<Rightarrow> (real \<times> real \<times> real \<times> real) option" where
  "box4 (w # s # e # n # rest) = Some (w, s, e, n)"
| "box4 box = None"

definition bbox_intersection ::
  "real list \<Rightarrow> real list \<Rightarrow> real list \<Rightarrow> ('p, 'g, 'c) error + real list option" where
  "bbox_intersection a b c =
     (case (box4 a, box4 b, box4 c) of
        (Some (w1, s1, e1, n1), Some (w2, s2, e2, n2), Some (w3, s3, e3, n3)) \<Rightarrow>
          (let west = max w1 (max w2 w3); south = max s1 (max s2 s3);
               east = min e1 (min e2 e3); north = min n1 (min n2 n3)
           in if west \<ge> east \<or> south \<ge> north then Inr None
              else Inr (Some [west, south, east, north]))
      | _ \<Rightarrow> Inl IndexError)"

section \<open>The documented test of numpy.allclose, in exact arithmetic\<close>

text \<open>
  The examples need values for the two numpy parameters. numpy documents the test of
  allclose(a, b, rtol, atol) as \<open>|a - b| \<le> atol + rtol * |b|\<close> for every pair of
  elements, with rtol 1e-05 and atol 1e-08 by default. Here the test is evaluated in
  exact arithmetic on finite numbers. numpy evaluates it in double precision, so the two
  can differ only where \<open>|a - b|\<close> is within rounding of the bound; the layers of the
  examples have equal values, or values whose difference is far from the bound.
\<close>

type_synonym geotransform = "real \<times> real \<times> real \<times> real \<times> real \<times> real"

type_synonym geometry = "(real \<times> real) list"

definition default_rtol :: real where
  "default_rtol = 1 / 10 ^ 5"

definition default_atol :: real where
  "default_atol = 1 / 10 ^ 8"

definition isclose :: "real \<Rightarrow> real \<Rightarrow> real \<Rightarrow> real \<Rightarrow> bool" where
  "isclose rtol atol a b = (\<bar>a - b\<bar> \<le> atol + rtol * \<bar>b\<bar>)"

fun gt_list :: "geotransform \<Rightarrow> real list" where
  "gt_list (a, b, c, d, e, f) = [a, b, c, d, e, f]"

definition allclose_geotransform :: "real \<Rightarrow> real \<Rightarrow> geotransform \<Rightarrow> geotransform \<Rightarrow> bool" where
  "allclose_geotransform rtol atol g h = list_all2 (isclose rtol atol) (gt_list g) (gt_list h)"

text \<open>
  Two coordinate arrays of shapes (n, 2) and (m, 2) are broadcast against each other:
  the shapes agree when \<open>n = m\<close> or one of them is 1, and numpy raises otherwise.
\<close>

definition broadcast_rows :: "'a list \<Rightarrow> 'a list \<Rightarrow> ('a \<times> 'a) list option" where
  "broadcast_rows a b =
     (if length a = length b then Some (zip a b)
      else if length a = 1 then Some (map (\<lambda>y. (hd a, y)) b)
      else if length b = 1 then Some (map (\<lambda>x. (x, hd b)) a)
      else None)"

definition close_point :: "real \<Rightarrow> real \<Rightarrow> (real \<times> real) \<times> (real \<times> real) \<Rightarrow> bool" where
  "close_point rtol atol pq =
     (isclose rtol atol (fst (fst pq)) (fst (snd pq)) \<and>
      isclose rtol atol (snd (fst pq)) (snd (snd pq)))"

definition allclose_geometry :: "real \<Rightarrow> real \<Rightarrow> geometry \<Rightarrow> geometry \<Rightarrow> bool option" where
  "allclose_geometry rtol atol a b =
     (case broadcast_rows a b of
        None \<Rightarrow> None
      | Some pairs \<Rightarrow> Some (list_all (close_point rtol atol) pairs))"

definition exact_numpy :: "(geotransform, geometry) numpy" where
  "exact_numpy = \<lparr>allclose_rtol = (\<lambda>rtol. allclose_geotransform rtol default_atol),
     allclose = allclose_geometry default_rtol default_atol\<rparr>"

section \<open>Example inputs\<close>

text \<open>
  Two raster layers on the same grid and a plugin without a \<open>plugin_name\<close> whose result
  has no name. The required keywords are the two that the specification gives as examples.
\<close>

definition example_keywords :: "string list" where
  "example_keywords = [''title'', ''category'']"

definition wgs84 :: string where
  "wgs84 = ''EPSG:4326''"

definition utm48s :: string where
  "utm48s = ''EPSG:32748''"

definition flood :: "(string, geotransform, geometry) layer" where
  "flood = \<lparr>name = ''Flood'',
     get_keywords = [''title'' \<mapsto> ''Flood'', ''category'' \<mapsto> ''hazard''],
     projection = wgs84, is_raster = True, is_vector = False,
     rows = Some 2, columns = Some 3,
     get_geotransform = (100, 1 / 2, 0, 10, 0, - (1 / 2)),
     get_geometry = [], len = 6\<rparr>"

definition population :: "(string, geotransform, geometry) layer" where
  "population = \<lparr>name = ''Population'',
     get_keywords = [''title'' \<mapsto> ''Population'', ''category'' \<mapsto> ''exposure''],
     projection = wgs84, is_raster = True, is_vector = False,
     rows = Some 2, columns = Some 3,
     get_geotransform = (100, 1 / 2, 0, 10, 0, - (1 / 2)),
     get_geometry = [], len = 6\<rparr>"

definition unnamed_function :: "(string, geotransform, geometry) impact_function" where
  "unnamed_function = \<lparr>run = (\<lambda>layers. Some \<lparr>result_is_raster = True,
       result_filename = None, result_name = None\<rparr>),
     plugin_name = None, function_str = ''<impact function>''\<rparr>"

definition null_function :: "(string, geotransform, geometry) impact_function" where
  "null_function = \<lparr>run = (\<lambda>layers. None),
     plugin_name = None, function_str = ''<null function>''\<rparr>"

definition example_filename :: "string \<Rightarrow> string" where
  "example_filename suffix = ''impact'' @ suffix"

definition always_written :: "impact_result \<Rightarrow> string \<Rightarrow> bool" where
  "always_written F path = True"

text \<open>The population layer in another projection, and a vector layer without features.\<close>

definition population_utm :: "(string, geotransform, geometry) layer" where
  "population_utm = \<lparr>name = ''Population'',
     get_keywords = [''title'' \<mapsto> ''Population'', ''category'' \<mapsto> ''exposure''],
     projection = utm48s, is_raster = True, is_vector = False,
     rows = Some 2, columns = Some 3,
     get_geotransform = (100, 1 / 2, 0, 10, 0, - (1 / 2)),
     get_geometry = [], len = 6\<rparr>"

definition empty_villages :: "(string, geotransform, geometry) layer" where
  "empty_villages = \<lparr>name = ''Villages'',
     get_keywords = [''title'' \<mapsto> ''Villages'', ''category'' \<mapsto> ''exposure''],
     projection = wgs84, is_raster = False, is_vector = True,
     rows = None, columns = None,
     get_geotransform = (0, 0, 0, 0, 0, 0),
     get_geometry = [], len = 0\<rparr>"

text \<open>
  A vector layer with two points, and the population layer with more rows, on a finer grid,
  and with its origin moved by 1e-9.
\<close>

definition villages :: "(string, geotransform, geometry) layer" where
  "villages = \<lparr>name = ''Villages'',
     get_keywords = [''title'' \<mapsto> ''Villages'', ''category'' \<mapsto> ''exposure''],
     projection = wgs84, is_raster = False, is_vector = True,
     rows = None, columns = None,
     get_geotransform = (0, 0, 0, 0, 0, 0),
     get_geometry = [(1001 / 10, 99 / 10), (1002 / 10, 98 / 10)], len = 2\<rparr>"

definition tall_population :: "(string, geotransform, geometry) layer" where
  "tall_population = \<lparr>name = ''Population'',
     get_keywords = [''title'' \<mapsto> ''Population'', ''category'' \<mapsto> ''exposure''],
     projection = wgs84, is_raster = True, is_vector = False,
     rows = Some 4, columns = Some 3,
     get_geotransform = (100, 1 / 2, 0, 10, 0, - (1 / 2)),
     get_geometry = [], len = 12\<rparr>"

definition fine_population :: "(string, geotransform, geometry) layer" where
  "fine_population = \<lparr>name = ''Population'',
     get_keywords = [''title'' \<mapsto> ''Population'', ''category'' \<mapsto> ''exposure''],
     projection = wgs84, is_raster = True, is_vector = False,
     rows = Some 4, columns = Some 6,
     get_geotransform = (100, 1 / 4, 0, 10, 0, - (1 / 4)),
     get_geometry = [], len = 24\<rparr>"

definition shifted_population :: "(string, geotransform, geometry) layer" where
  "shifted_population = \<lparr>name = ''Population'',
     get_keywords = [''title'' \<mapsto> ''Population'', ''category'' \<mapsto> ''exposure''],
     projection = wgs84, is_raster = True, is_vector = False,
     rows = Some 2, columns = Some 3,
     get_geotransform = (100 + 1 / 10 ^ 9, 1 / 2, 0, 10, 0, - (1 / 2)),
     get_geometry = [], len = 6\<rparr>"

text \<open>
  Two spatial objects, a reader that finds no file, and the strings of
  \<open>bboxlist2string\<close> for the boxes of the examples.
\<close>

definition no_files :: "string \<Rightarrow> (string, geotransform, geometry) error + spatial" where
  "no_files fn = Inl (ExternalError fn)"

definition example_bboxlist2string :: "real list \<Rightarrow> string" where
  "example_bboxlist2string box =
     (if box = [0, 0, 1, 1] then ''0.000,0.000,1.000,1.000''
      else if box = [5, 5, 6, 6] then ''5.000,5.000,6.000,6.000''
      else if box = [4, 4, 12, 12] then ''4.000,4.000,12.000,12.000''
      else ''...'')"

definition far_hazard :: spatial where
  "far_hazard = \<lparr>is_riab_spatial_object = Some True, get_bounding_box = [5, 5, 6, 6],
     object_str = ''Hazard''\<rparr>"

definition exposure_object :: spatial where
  "exposure_object = \<lparr>is_riab_spatial_object = Some True, get_bounding_box = [4, 4, 12, 12],
     object_str = ''Exposure''\<rparr>"

section \<open>Evaluation of the examples\<close>

lemmas validate_defs = check_data_integrity_def check_alignment_def check_layer_def
  check_projection_def check_geotransform_def check_coordinates_def initial_refs_def
  allclose_geotransform_def isclose_def default_atol_def default_rtol_def
  allclose_geometry_def broadcast_rows_def close_point_def exact_numpy_def

lemma flood_population_valid:
  "check_data_integrity exact_numpy example_keywords wgs84 [flood, population] = Inr ()"
  by (simp add: validate_defs example_keywords_def wgs84_def flood_def population_def)

lemma default_name_flood_population:
  "default_name_of [flood, population] unnamed_function = ''Flood X Population ''"
  by (simp add: default_name_of_def flood_def population_def unnamed_function_def)

lemma calculate_impact_flood_population:
  "calculate_impact exact_numpy example_keywords wgs84 example_filename always_written
     [flood, population] unnamed_function =
   ([Instantiate, Run, UniqueFilename ''.tif'',
     WriteToFile ''impact.tif''
       \<lparr>result_is_raster = True, result_filename = Some ''impact.tif'', result_name = None\<rparr>,
     SetName ''Flood X Population ''],
    Inr \<lparr>result_is_raster = True, result_filename = Some ''impact.tif'',
         result_name = Some ''Flood X Population ''\<rparr>)"
  unfolding calculate_impact_def flood_population_valid default_name_flood_population Let_def
  by (simp add: unnamed_function_def name_unset_def example_filename_def always_written_def)

lemma flood_population_utm_mismatch:
  "check_data_integrity exact_numpy example_keywords wgs84 [flood, population_utm] =
     Inl (ProjectionMismatch ''Population'' utm48s wgs84)"
  by (simp add: validate_defs example_keywords_def wgs84_def utm48s_def flood_def
      population_utm_def)

lemmas loop_defs = check_layer_def
  check_projection_def check_geotransform_def check_coordinates_def initial_refs_def
  allclose_geotransform_def isclose_def default_atol_def default_rtol_def
  allclose_geometry_def broadcast_rows_def close_point_def exact_numpy_def

lemma flood_population_loop:
  "check_layers exact_numpy example_keywords (initial_refs wgs84) [flood, population] =
     Inr \<lparr>reference_projection = Some wgs84,
          geotransform = Some (100, 1 / 2, 0, 10, 0, - (1 / 2)), coordinates = None\<rparr>"
  by (simp add: loop_defs example_keywords_def wgs84_def flood_def population_def)

lemma flood_tall_population_loop:
  "check_layers exact_numpy example_keywords (initial_refs wgs84) [flood, tall_population] =
     Inr \<lparr>reference_projection = Some wgs84,
          geotransform = Some (100, 1 / 2, 0, 10, 0, - (1 / 2)), coordinates = None\<rparr>"
  by (simp add: loop_defs example_keywords_def wgs84_def flood_def tall_population_def)

lemma flood_loop:
  "check_layers exact_numpy example_keywords (initial_refs wgs84) [flood] =
     Inr \<lparr>reference_projection = Some wgs84,
          geotransform = Some (100, 1 / 2, 0, 10, 0, - (1 / 2)), coordinates = None\<rparr>"
  by (simp add: loop_defs example_keywords_def wgs84_def flood_def)

section \<open>Empty layer list\<close>

text \<open>
  C10: on the empty layer list the first loop does nothing and the read of
  \<open>layer_files[0]\<close> after it raises IndexError, which is none of the assertions of
  the function; so the call never returns successfully.
\<close>

theorem check_data_integrity_empty:
  "check_data_integrity np rk dp [] = Inl IndexError"
  by (simp add: check_data_integrity_def check_alignment_def)

section \<open>Projection consistency\<close>

subsection \<open>The reference projection\<close>

lemma check_projection_Some:
  "reference_projection st = Some dp \<Longrightarrow>
   check_projection st l =
     (if projection l = dp then Inr st else Inl (ProjectionMismatch (name l) (projection l) dp))"
  by (auto simp: check_projection_def)

lemma check_geotransform_reference_projection:
  "check_geotransform np st l = Inr st' \<Longrightarrow> reference_projection st' = reference_projection st"
  by (auto simp: check_geotransform_def split: option.splits if_splits)

lemma check_coordinates_reference_projection:
  "check_coordinates np st l = Inr st' \<Longrightarrow> reference_projection st' = reference_projection st"
  by (auto simp: check_coordinates_def split: option.splits if_splits)

text \<open>What a successful pass through the loop body went through.\<close>

lemma check_layer_InrD:
  assumes "check_layer np rk st l = Inr st'" and "reference_projection st = Some dp"
  shows "check_keywords rk l = Inr () \<and> projection l = dp \<and>
     (\<exists>st2. check_geotransform np st l = Inr st2 \<and> check_coordinates np st2 l = Inr st')"
  using assms
  by (auto simp: check_layer_def check_projection_Some split: sum.splits if_splits)

lemma check_layer_reference_projection:
  assumes "check_layer np rk st l = Inr st'" and "reference_projection st = Some p"
  shows "reference_projection st' = Some p"
proof -
  from check_layer_InrD [OF assms] obtain st2 where
    a: "check_geotransform np st l = Inr st2" and b: "check_coordinates np st2 l = Inr st'"
    by blast
  show ?thesis
    using check_geotransform_reference_projection [OF a]
      check_coordinates_reference_projection [OF b] assms(2)
    by simp
qed

lemma visited_reference_projection:
  "reference_projection st = Some p \<Longrightarrow>
   \<forall>s \<in> set (visited np rk st ls). reference_projection s = Some p"
proof (induction ls arbitrary: st)
  case Nil
  then show ?case by simp
next
  case (Cons l ls)
  show ?case
  proof (cases "check_layer np rk st l")
    case (Inl e)
    with Cons.prems show ?thesis by simp
  next
    case (Inr st')
    then have "reference_projection st' = Some p"
      using Cons.prems by (rule check_layer_reference_projection)
    then have "\<forall>s \<in> set (visited np rk st' ls). reference_projection s = Some p"
      by (rule Cons.IH)
    with Inr Cons.prems show ?thesis by simp
  qed
qed

lemma check_layers_projection:
  "check_layers np rk st ls = Inr st' \<Longrightarrow> reference_projection st = Some dp \<Longrightarrow>
   \<forall>l \<in> set ls. projection l = dp"
proof (induction ls arbitrary: st)
  case Nil
  then show ?case by simp
next
  case (Cons l ls)
  from Cons.prems(1) obtain st1 where
    s1: "check_layer np rk st l = Inr st1" and s2: "check_layers np rk st1 ls = Inr st'"
    by (auto split: sum.splits)
  from check_layer_InrD [OF s1 Cons.prems(2)] have "projection l = dp" by simp
  moreover have "\<forall>l \<in> set ls. projection l = dp"
    using s2 check_layer_reference_projection [OF s1 Cons.prems(2)] by (rule Cons.IH)
  ultimately show ?case by simp
qed

subsection \<open>Where a projection mismatch comes from\<close>

lemma check_keywords_not_projection:
  "check_keywords rk l \<noteq> Inl (ProjectionMismatch n p rp)"
  by (induction rk) (auto split: option.splits)

lemma check_geotransform_not_projection:
  "check_geotransform np st l \<noteq> Inl (ProjectionMismatch n p rp)"
  by (auto simp: check_geotransform_def split: option.splits)

lemma check_coordinates_not_projection:
  "check_coordinates np st l \<noteq> Inl (ProjectionMismatch n p rp)"
  by (auto simp: check_coordinates_def split: option.splits sum.splits)

lemma check_layer_projection_mismatch:
  assumes "check_layer np rk st l = Inl (ProjectionMismatch n p rp)"
    and "reference_projection st = Some dp"
  shows "rp = dp \<and> p \<noteq> dp \<and> n = name l \<and> p = projection l"
proof (cases "projection l = dp")
  case True
  with assms show ?thesis
    using check_keywords_not_projection [of rk l n p rp]
      check_geotransform_not_projection [of np st l n p rp]
      check_coordinates_not_projection [of np _ l n p rp]
    by (auto simp: check_layer_def check_projection_Some split: sum.splits)
next
  case False
  with assms show ?thesis
    using check_keywords_not_projection [of rk l n p rp]
    by (auto simp: check_layer_def check_projection_Some split: sum.splits)
qed

lemma check_layers_projection_mismatch:
  "check_layers np rk st ls = Inl (ProjectionMismatch n p rp) \<Longrightarrow>
   reference_projection st = Some dp \<Longrightarrow>
   rp = dp \<and> p \<noteq> dp \<and> (\<exists>l \<in> set ls. name l = n \<and> projection l = p)"
proof (induction ls arbitrary: st)
  case Nil
  then show ?case by simp
next
  case (Cons l ls)
  show ?case
  proof (cases "check_layer np rk st l")
    case (Inl e)
    with Cons.prems(1) have "check_layer np rk st l = Inl (ProjectionMismatch n p rp)" by simp
    from check_layer_projection_mismatch [OF this Cons.prems(2)] show ?thesis by auto
  next
    case (Inr st1)
    with Cons.prems(1) have "check_layers np rk st1 ls = Inl (ProjectionMismatch n p rp)" by simp
    from Cons.IH [OF this check_layer_reference_projection [OF Inr Cons.prems(2)]]
    show ?thesis by auto
  qed
qed

lemma check_aligned_not_projection:
  "check_aligned M N r ls \<noteq> Inl (ProjectionMismatch n p rp)"
  by (induction ls) (auto split: option.splits)

lemma check_alignment_not_projection:
  "check_alignment ls \<noteq> Inl (ProjectionMismatch n p rp)"
  by (auto simp: check_alignment_def check_aligned_not_projection split: list.splits option.splits)


subsection \<open>The list with every projection replaced by the default\<close>

lemma check_keywords_projection_update [simp]:
  "check_keywords rk (l\<lparr>projection := p\<rparr>) = check_keywords rk l"
  by (induction rk) (auto split: option.splits)

lemma check_geotransform_projection_update [simp]:
  "check_geotransform np st (l\<lparr>projection := p\<rparr>) = check_geotransform np st l"
  by (auto simp: check_geotransform_def split: option.splits)

lemma check_coordinates_projection_update [simp]:
  "check_coordinates np st (l\<lparr>projection := p\<rparr>) = check_coordinates np st l"
  by (auto simp: check_coordinates_def split: option.splits sum.splits)

lemma check_layer_normalised:
  assumes "reference_projection st = Some dp"
    and "check_layer np rk st (l\<lparr>projection := dp\<rparr>) = Inr st'"
  shows "check_layer np rk st l =
     (if projection l = dp then Inr st'
      else Inl (ProjectionMismatch (name l) (projection l) dp))"
proof (cases "projection l = dp")
  case True
  then have "l\<lparr>projection := dp\<rparr> = l" by simp
  with assms(2) True show ?thesis by simp
next
  case False
  from check_layer_InrD [OF assms(2) assms(1)] have "check_keywords rk l = Inr ()" by simp
  with False assms(1) show ?thesis
    by (simp add: check_layer_def check_projection_Some)
qed

lemma check_layers_normalised:
  assumes "reference_projection st = Some dp"
    and "check_layers np rk st (map (\<lambda>l. l\<lparr>projection := dp\<rparr>) ls) = Inr st'"
  shows "check_layers np rk st ls =
     (case find (\<lambda>l. projection l \<noteq> dp) ls of
        None \<Rightarrow> Inr st'
      | Some l \<Rightarrow> Inl (ProjectionMismatch (name l) (projection l) dp))"
  using assms
proof (induction ls arbitrary: st)
  case Nil
  then show ?case by simp
next
  case (Cons l ls)
  from Cons.prems(2) obtain st1 where
    s1: "check_layer np rk st (l\<lparr>projection := dp\<rparr>) = Inr st1"
    and s2: "check_layers np rk st1 (map (\<lambda>l. l\<lparr>projection := dp\<rparr>) ls) = Inr st'"
    by (auto split: sum.splits)
  have r1: "reference_projection st1 = Some dp"
    using s1 Cons.prems(1) by (rule check_layer_reference_projection)
  note step = check_layer_normalised [OF Cons.prems(1) s1]
  show ?case
  proof (cases "projection l = dp")
    case True
    with step Cons.IH [OF r1 s2] show ?thesis by simp
  next
    case False
    with step show ?thesis by simp
  qed
qed

lemma check_aligned_normalised [simp]:
  "check_aligned M N r (map (\<lambda>l. l\<lparr>projection := dp\<rparr>) ls) = check_aligned M N r ls"
  by (induction ls) (auto split: option.splits)

lemma check_alignment_normalised [simp]:
  "check_alignment (map (\<lambda>l. l\<lparr>projection := dp\<rparr>) ls) = check_alignment ls"
proof (cases ls)
  case Nil
  then show ?thesis by (simp add: check_alignment_def)
next
  case (Cons a list)
  have "check_aligned M N r (map (\<lambda>l. l\<lparr>projection := dp\<rparr>) (a # list)) =
      check_aligned M N r (a # list)" for M N r
    by (rule check_aligned_normalised)
  then show ?thesis
    unfolding Cons check_alignment_def by (simp split: option.splits)
qed

lemma check_data_integrity_normalised:
  assumes "check_data_integrity np rk dp (map (\<lambda>l. l\<lparr>projection := dp\<rparr>) ls) = Inr ()"
  shows "check_data_integrity np rk dp ls =
     (case find (\<lambda>l. projection l \<noteq> dp) ls of
        None \<Rightarrow> Inr ()
      | Some l \<Rightarrow> Inl (ProjectionMismatch (name l) (projection l) dp))"
proof -
  from assms obtain st' where
    pass: "check_layers np rk (initial_refs dp) (map (\<lambda>l. l\<lparr>projection := dp\<rparr>) ls) = Inr st'"
    and al: "check_alignment ls = Inr ()"
    by (auto simp: check_data_integrity_def split: sum.splits)
  have init: "reference_projection (initial_refs dp) = Some dp"
    by (simp add: initial_refs_def)
  from check_layers_normalised [OF init pass] al show ?thesis
    by (simp add: check_data_integrity_def split: option.splits)
qed

text \<open>
  C1, as the code has it. The reference projection is the default in every state in which
  the loop body is entered, so the branch that adopts a layer's projection is never taken.
  A projection mismatch is reported only for a layer whose projection differs from the
  default, and a list with such a layer never validates. The mismatch is what
  \<open>check_data_integrity\<close> fails with when every other check passes, that is, when the
  list validates once each projection is replaced by the default; then the error names
  the first layer whose projection differs.
\<close>

theorem projection_consistency:
  "(\<forall>s \<in> set (visited np rk (initial_refs dp) ls). reference_projection s = Some dp) \<and>
   (\<forall>n p rp. check_data_integrity np rk dp ls = Inl (ProjectionMismatch n p rp) \<longrightarrow>
      rp = dp \<and> p \<noteq> dp \<and> (\<exists>l \<in> set ls. name l = n \<and> projection l = p)) \<and>
   ((\<exists>l \<in> set ls. projection l \<noteq> dp) \<longrightarrow> check_data_integrity np rk dp ls \<noteq> Inr ()) \<and>
   (check_data_integrity np rk dp (map (\<lambda>l. l\<lparr>projection := dp\<rparr>) ls) = Inr () \<longrightarrow>
      check_data_integrity np rk dp ls =
        (case find (\<lambda>l. projection l \<noteq> dp) ls of
           None \<Rightarrow> Inr ()
         | Some l \<Rightarrow> Inl (ProjectionMismatch (name l) (projection l) dp)))"
proof -
  have init: "reference_projection (initial_refs dp) = Some dp"
    by (simp add: initial_refs_def)
  have a: "\<forall>s \<in> set (visited np rk (initial_refs dp) ls). reference_projection s = Some dp"
    using init by (rule visited_reference_projection)
  have b: "rp = dp \<and> p \<noteq> dp \<and> (\<exists>l \<in> set ls. name l = n \<and> projection l = p)"
    if "check_data_integrity np rk dp ls = Inl (ProjectionMismatch n p rp)" for n p rp
  proof (cases "check_layers np rk (initial_refs dp) ls")
    case (Inl e)
    with that have "check_layers np rk (initial_refs dp) ls = Inl (ProjectionMismatch n p rp)"
      by (simp add: check_data_integrity_def)
    from check_layers_projection_mismatch [OF this init] show ?thesis .
  next
    case (Inr st')
    with that check_alignment_not_projection [of ls n p rp] show ?thesis
      by (simp add: check_data_integrity_def)
  qed
  have c: "check_data_integrity np rk dp ls \<noteq> Inr ()" if "\<exists>l \<in> set ls. projection l \<noteq> dp"
  proof
    assume "check_data_integrity np rk dp ls = Inr ()"
    then obtain st' where "check_layers np rk (initial_refs dp) ls = Inr st'"
      by (auto simp: check_data_integrity_def split: sum.splits)
    from check_layers_projection [OF this init] that show False by blast
  qed
  from a b c check_data_integrity_normalised [of np rk dp ls] show ?thesis by blast
qed

lemma flood_population_utm_normalised:
  "check_data_integrity exact_numpy example_keywords wgs84
     (map (\<lambda>l. l\<lparr>projection := wgs84\<rparr>) [flood, population_utm]) = Inr ()"
  by (simp add: validate_defs example_keywords_def wgs84_def flood_def population_utm_def)

theorem projection_consistency_witness:
  "check_data_integrity exact_numpy example_keywords wgs84
     (map (\<lambda>l. l\<lparr>projection := wgs84\<rparr>) [flood, population_utm]) = Inr () \<and>
   (\<exists>l \<in> set [flood, population_utm]. projection l \<noteq> wgs84) \<and>
   visited exact_numpy example_keywords (initial_refs wgs84) [flood, population_utm] \<noteq> [] \<and>
   check_data_integrity exact_numpy example_keywords wgs84 [flood, population_utm] =
     Inl (ProjectionMismatch ''Population'' utm48s wgs84)"
  using projection_consistency [of exact_numpy example_keywords wgs84 "[flood, population_utm]"]
    flood_population_utm_normalised
  by (simp add: flood_def population_utm_def wgs84_def utm48s_def)

text \<open>
  C1, as the claim states it, fails: the second layer's projection differs from the
  default, but the first layer is a vector layer without features, and that assertion
  fails first.
\<close>

theorem projection_mismatch_counterexample:
  "projection population_utm \<noteq> wgs84 \<and>
   check_data_integrity exact_numpy example_keywords wgs84 [empty_villages, population_utm] =
     Inl (EmptyVectorLayer ''Villages'')"
  by (simp add: validate_defs example_keywords_def wgs84_def utm48s_def
      empty_villages_def population_utm_def)

section \<open>Raster alignment\<close>

lemma check_aligned_Inr_iff:
  assumes "\<forall>l \<in> set ls. is_raster l \<longrightarrow> rows l \<noteq> None \<and> columns l \<noteq> None"
  shows "check_aligned M N r ls = Inr () \<longleftrightarrow>
     (\<forall>l \<in> set ls. is_raster l \<longrightarrow> rows l = Some M \<and> columns l = Some N)"
  using assms by (induction ls) (auto split: option.splits)

lemma check_aligned_Inl:
  assumes "\<forall>l \<in> set ls. is_raster l \<longrightarrow> rows l \<noteq> None \<and> columns l \<noteq> None"
    and "check_aligned M N r ls = Inl e"
  shows "(\<exists>n x. e = RowsMismatch n x r M) \<or> (\<exists>n x. e = ColumnsMismatch n x r N)"
  using assms by (induction ls) (auto split: option.splits if_splits)

text \<open>
  C3, as the code has it. When the first loop has passed and the first layer of the list
  is a raster layer, the second loop compares every raster layer with the rows and
  columns of that first layer: if two raster layers differ in rows or in columns the
  function fails with the rows or the columns assertion, which names the first layer as
  the reference, and if all raster layers agree it returns.
\<close>

theorem raster_alignment:
  assumes "check_layers np rk (initial_refs dp) ls = Inr st"
    and "ls = l0 # rest" and "is_raster l0"
    and "\<forall>l \<in> set ls. is_raster l \<longrightarrow> rows l \<noteq> None \<and> columns l \<noteq> None"
  shows "((\<exists>a \<in> set ls. \<exists>b \<in> set ls. is_raster a \<and> is_raster b \<and>
             (rows a \<noteq> rows b \<or> columns a \<noteq> columns b)) \<longrightarrow>
          (\<exists>n x M. check_data_integrity np rk dp ls = Inl (RowsMismatch n x (name l0) M)) \<or>
          (\<exists>n x N. check_data_integrity np rk dp ls = Inl (ColumnsMismatch n x (name l0) N))) \<and>
         ((\<forall>a \<in> set ls. \<forall>b \<in> set ls. is_raster a \<and> is_raster b \<longrightarrow>
             rows a = rows b \<and> columns a = columns b) \<longrightarrow>
          check_data_integrity np rk dp ls = Inr ())"
proof -
  from assms(2,3,4) obtain M N where MN: "rows l0 = Some M" "columns l0 = Some N"
    by auto
  have cdi: "check_data_integrity np rk dp ls = check_aligned M N (name l0) ls"
    using assms(1,2) MN by (simp add: check_data_integrity_def check_alignment_def)
  note iff = check_aligned_Inr_iff [OF assms(4), of M N "name l0"]
  have l0: "l0 \<in> set ls" using assms(2) by simp
  show ?thesis
  proof (intro conjI impI)
    assume "\<exists>a \<in> set ls. \<exists>b \<in> set ls. is_raster a \<and> is_raster b \<and>
             (rows a \<noteq> rows b \<or> columns a \<noteq> columns b)"
    then have "\<not> (\<forall>l \<in> set ls. is_raster l \<longrightarrow> rows l = Some M \<and> columns l = Some N)"
      by metis
    with iff have "check_aligned M N (name l0) ls \<noteq> Inr ()" by simp
    then obtain e where "check_aligned M N (name l0) ls = Inl e"
      by (cases "check_aligned M N (name l0) ls") auto
    from check_aligned_Inl [OF assms(4) this] this cdi
    show "(\<exists>n x M. check_data_integrity np rk dp ls = Inl (RowsMismatch n x (name l0) M)) \<or>
          (\<exists>n x N. check_data_integrity np rk dp ls = Inl (ColumnsMismatch n x (name l0) N))"
      by auto
  next
    assume "\<forall>a \<in> set ls. \<forall>b \<in> set ls. is_raster a \<and> is_raster b \<longrightarrow>
             rows a = rows b \<and> columns a = columns b"
    with l0 assms(3) MN
    have "\<forall>l \<in> set ls. is_raster l \<longrightarrow> rows l = Some M \<and> columns l = Some N"
      by metis
    with iff cdi show "check_data_integrity np rk dp ls = Inr ()" by simp
  qed
qed

theorem raster_alignment_witness:
  "check_data_integrity exact_numpy example_keywords wgs84 [flood, population] = Inr () \<and>
   rows flood \<noteq> rows tall_population \<and>
   ((\<exists>n x M. check_data_integrity exact_numpy example_keywords wgs84 [flood, tall_population] =
        Inl (RowsMismatch n x (name flood) M)) \<or>
    (\<exists>n x N. check_data_integrity exact_numpy example_keywords wgs84 [flood, tall_population] =
        Inl (ColumnsMismatch n x (name flood) N)))"
proof -
  have r: "is_raster flood" by (simp add: flood_def)
  have wf: "\<forall>l \<in> set [flood, population]. is_raster l \<longrightarrow> rows l \<noteq> None \<and> columns l \<noteq> None"
    by (simp add: flood_def population_def)
  have eq: "\<forall>a \<in> set [flood, population]. \<forall>b \<in> set [flood, population].
      is_raster a \<and> is_raster b \<longrightarrow> rows a = rows b \<and> columns a = columns b"
    by (simp add: flood_def population_def)
  from raster_alignment [OF flood_population_loop refl r wf] eq
  have a: "check_data_integrity exact_numpy example_keywords wgs84 [flood, population] = Inr ()"
    by blast
  have wf': "\<forall>l \<in> set [flood, tall_population].
      is_raster l \<longrightarrow> rows l \<noteq> None \<and> columns l \<noteq> None"
    by (simp add: flood_def tall_population_def)
  have d: "rows flood \<noteq> rows tall_population"
    by (simp add: flood_def tall_population_def)
  have t: "is_raster tall_population" by (simp add: tall_population_def)
  from d r t have ne: "\<exists>a \<in> set [flood, tall_population]. \<exists>b \<in> set [flood, tall_population].
      is_raster a \<and> is_raster b \<and> (rows a \<noteq> rows b \<or> columns a \<noteq> columns b)"
    by auto
  from raster_alignment [OF flood_tall_population_loop refl r wf'] ne
  have b: "(\<exists>n x M. check_data_integrity exact_numpy example_keywords wgs84 [flood, tall_population] =
        Inl (RowsMismatch n x (name flood) M)) \<or>
    (\<exists>n x N. check_data_integrity exact_numpy example_keywords wgs84 [flood, tall_population] =
        Inl (ColumnsMismatch n x (name flood) N))"
    by blast
  from a d b show ?thesis by blast
qed

text \<open>
  C3, as the claim states it, fails twice. With a vector layer first and two raster layers
  of equal rows and columns after it, the first loop passes and the read of the
  \<open>rows\<close> of the first layer raises AttributeError. And two raster layers that differ in
  rows and in geotransform fail with the geotransform assertion of the first loop, not
  with the rows assertion.
\<close>

theorem raster_alignment_counterexample:
  "check_layers exact_numpy example_keywords (initial_refs wgs84) [villages, flood, population] =
     Inr \<lparr>reference_projection = Some wgs84,
          geotransform = Some (100, 1 / 2, 0, 10, 0, - (1 / 2)),
          coordinates = Some [(1001 / 10, 99 / 10), (1002 / 10, 98 / 10)]\<rparr> \<and>
   rows flood = rows population \<and> columns flood = columns population \<and>
   check_data_integrity exact_numpy example_keywords wgs84 [villages, flood, population] =
     Inl (AttributeError ''rows'') \<and>
   rows flood \<noteq> rows fine_population \<and>
   check_data_integrity exact_numpy example_keywords wgs84 [flood, fine_population] =
     Inl (GeotransformMismatch (100, 1 / 2, 0, 10, 0, - (1 / 2))
            (100, 1 / 4, 0, 10, 0, - (1 / 4)))"
  by (simp add: validate_defs example_keywords_def wgs84_def flood_def population_def
      villages_def fine_population_def)


section \<open>Geotransform tolerance\<close>

lemma check_layers_append:
  "check_layers np rk st (xs @ ys) =
     (case check_layers np rk st xs of Inl e \<Rightarrow> Inl e | Inr st' \<Rightarrow> check_layers np rk st' ys)"
  by (induction xs arbitrary: st) (auto split: sum.splits)

lemma check_layers_reference_projection:
  "check_layers np rk st ls = Inr st' \<Longrightarrow> reference_projection st = Some p \<Longrightarrow>
   reference_projection st' = Some p"
proof (induction ls arbitrary: st)
  case Nil
  then show ?case by simp
next
  case (Cons l ls)
  from Cons.prems(1) obtain st1 where
    s1: "check_layer np rk st l = Inr st1" and s2: "check_layers np rk st1 ls = Inr st'"
    by (auto split: sum.splits)
  from s2 check_layer_reference_projection [OF s1 Cons.prems(2)] show ?case
    by (rule Cons.IH)
qed

lemma check_geotransform_field:
  "check_geotransform np st l = Inr st' \<Longrightarrow>
   geotransform st' =
     (case geotransform st of
        Some g \<Rightarrow> Some g
      | None \<Rightarrow> if is_raster l then Some (get_geotransform l) else None)"
  by (auto simp: check_geotransform_def split: option.splits if_splits)

lemma check_coordinates_geotransform:
  "check_coordinates np st l = Inr st' \<Longrightarrow> geotransform st' = geotransform st"
  by (auto simp: check_coordinates_def split: option.splits if_splits)

lemma check_layer_geotransform:
  assumes "check_layer np rk st l = Inr st'" and "reference_projection st = Some dp"
  shows "geotransform st' =
     (case geotransform st of
        Some g \<Rightarrow> Some g
      | None \<Rightarrow> if is_raster l then Some (get_geotransform l) else None)"
proof -
  from check_layer_InrD [OF assms] obtain st2 where
    a: "check_geotransform np st l = Inr st2" and b: "check_coordinates np st2 l = Inr st'"
    by blast
  from check_geotransform_field [OF a] check_coordinates_geotransform [OF b]
  show ?thesis by simp
qed

lemma check_layers_geotransform:
  "check_layers np rk st ls = Inr st' \<Longrightarrow> reference_projection st = Some dp \<Longrightarrow>
   geotransform st' =
     (case geotransform st of
        Some g \<Rightarrow> Some g
      | None \<Rightarrow> map_option get_geotransform (find is_raster ls))"
proof (induction ls arbitrary: st)
  case Nil
  then show ?case by (simp split: option.splits)
next
  case (Cons l ls)
  from Cons.prems(1) obtain st1 where
    s1: "check_layer np rk st l = Inr st1" and s2: "check_layers np rk st1 ls = Inr st'"
    by (auto split: sum.splits)
  note r1 = check_layer_reference_projection [OF s1 Cons.prems(2)]
  from Cons.IH [OF s2 r1] check_layer_geotransform [OF s1 Cons.prems(2)]
  show ?case by (auto split: option.splits)
qed

lemma check_keywords_not_geotransform:
  "check_keywords rk l \<noteq> Inl (GeotransformMismatch g h)"
  by (induction rk) (auto split: option.splits)

lemma check_projection_not_geotransform:
  "check_projection st l \<noteq> Inl (GeotransformMismatch g h)"
  by (auto simp: check_projection_def split: option.splits)

lemma check_coordinates_not_geotransform:
  "check_coordinates np st l \<noteq> Inl (GeotransformMismatch g h)"
  by (auto simp: check_coordinates_def split: option.splits sum.splits)

lemma check_geotransform_mismatch:
  "check_geotransform np st l = Inl (GeotransformMismatch g h) \<Longrightarrow>
   \<not> allclose_rtol np (1 / 10 ^ 12) g h"
  by (auto simp: check_geotransform_def split: option.splits if_splits)

lemma check_layer_geotransform_mismatch:
  assumes "check_layer np rk st l = Inl (GeotransformMismatch g h)"
  shows "\<not> allclose_rtol np (1 / 10 ^ 12) g h"
proof -
  from assms check_keywords_not_geotransform [of rk l g h]
    check_projection_not_geotransform [of st l g h]
  obtain st1 where "check_projection st l = Inr st1"
    and c: "(case check_geotransform np st1 l of Inl e \<Rightarrow> Inl e
             | Inr st2 \<Rightarrow> check_coordinates np st2 l) = Inl (GeotransformMismatch g h)"
    by (auto simp: check_layer_def split: sum.splits)
  from c check_coordinates_not_geotransform [of np _ l g h]
  have "check_geotransform np st1 l = Inl (GeotransformMismatch g h)"
    by (auto split: sum.splits)
  then show ?thesis by (rule check_geotransform_mismatch)
qed

lemma check_layers_geotransform_mismatch:
  "check_layers np rk st ls = Inl (GeotransformMismatch g h) \<Longrightarrow>
   \<not> allclose_rtol np (1 / 10 ^ 12) g h"
proof (induction ls arbitrary: st)
  case Nil
  then show ?case by simp
next
  case (Cons l ls)
  show ?case
  proof (cases "check_layer np rk st l")
    case (Inl e)
    with Cons.prems have "check_layer np rk st l = Inl (GeotransformMismatch g h)" by simp
    then show ?thesis by (rule check_layer_geotransform_mismatch)
  next
    case (Inr st1)
    with Cons.prems have "check_layers np rk st1 ls = Inl (GeotransformMismatch g h)" by simp
    then show ?thesis by (rule Cons.IH)
  qed
qed

lemma check_aligned_not_geotransform:
  "check_aligned M N r ls \<noteq> Inl (GeotransformMismatch g h)"
  by (induction ls) (auto split: option.splits)

lemma check_alignment_not_geotransform:
  "check_alignment ls \<noteq> Inl (GeotransformMismatch g h)"
  by (auto simp: check_alignment_def check_aligned_not_geotransform
      split: list.splits option.splits)

lemma check_data_integrity_geotransform_mismatch:
  assumes "check_data_integrity np rk dp ls = Inl (GeotransformMismatch g h)"
  shows "\<not> allclose_rtol np (1 / 10 ^ 12) g h"
proof (cases "check_layers np rk (initial_refs dp) ls")
  case (Inl e)
  with assms have "check_layers np rk (initial_refs dp) ls = Inl (GeotransformMismatch g h)"
    by (simp add: check_data_integrity_def)
  then show ?thesis by (rule check_layers_geotransform_mismatch)
next
  case (Inr st')
  with assms check_alignment_not_geotransform [of ls g h] show ?thesis
    by (simp add: check_data_integrity_def)
qed

text \<open>
  C4, as the code has it. Let the first loop have passed the layers before a raster layer
  \<open>l\<close>, the first raster layer among them being \<open>r0\<close>, and let the keywords and the
  projection of \<open>l\<close> pass. Then the function fails with the geotransform assertion for
  \<open>l\<close> exactly when \<open>numpy.allclose(geotransform, layer.get_geotransform(), rtol=1.0e-12)\<close>
  is false, where the reference is the geotransform of \<open>r0\<close>; when it is true the layer
  goes on to the vector checks with the references unchanged. What is accepted is decided
  by numpy.allclose, which adds its default absolute tolerance to the relative one, in
  double precision; this holds whatever numpy.allclose computes.
\<close>

theorem geotransform_tolerance:
  assumes "check_layers np rk (initial_refs dp) pre = Inr st"
    and "find is_raster pre = Some r0"
    and "is_raster l" and "check_keywords rk l = Inr ()" and "projection l = dp"
  shows "(check_data_integrity np rk dp (pre @ l # post) =
            Inl (GeotransformMismatch (get_geotransform r0) (get_geotransform l)) \<longleftrightarrow>
          \<not> allclose_rtol np (1 / 10 ^ 12) (get_geotransform r0) (get_geotransform l)) \<and>
         (allclose_rtol np (1 / 10 ^ 12) (get_geotransform r0) (get_geotransform l) \<longrightarrow>
          check_layers np rk (initial_refs dp) (pre @ [l]) = check_coordinates np st l)"
proof -
  let ?g = "get_geotransform r0" and ?h = "get_geotransform l"
  have rp: "reference_projection st = Some dp"
    using assms(1) by (rule check_layers_reference_projection) (simp add: initial_refs_def)
  have gt: "geotransform st = Some ?g"
    using check_layers_geotransform [OF assms(1), of dp] assms(2)
    by (simp add: initial_refs_def)
  have rejected: "check_data_integrity np rk dp (pre @ l # post) = Inl (GeotransformMismatch ?g ?h)"
    if "\<not> allclose_rtol np (1 / 10 ^ 12) ?g ?h"
  proof -
    from that gt assms(3) have "check_geotransform np st l = Inl (GeotransformMismatch ?g ?h)"
      by (simp add: check_geotransform_def)
    with assms(4,5) rp have "check_layer np rk st l = Inl (GeotransformMismatch ?g ?h)"
      by (simp add: check_layer_def check_projection_Some)
    with assms(1) show ?thesis
      by (simp add: check_data_integrity_def check_layers_append)
  qed
  have accepted: "check_layers np rk (initial_refs dp) (pre @ [l]) = check_coordinates np st l"
    if "allclose_rtol np (1 / 10 ^ 12) ?g ?h"
  proof -
    from that gt assms(3) have "check_geotransform np st l = Inr st"
      by (simp add: check_geotransform_def)
    with assms(4,5) rp have "check_layer np rk st l = check_coordinates np st l"
      by (simp add: check_layer_def check_projection_Some)
    with assms(1) show ?thesis
      by (simp add: check_layers_append split: sum.splits)
  qed
  from rejected accepted check_data_integrity_geotransform_mismatch [of np rk dp "pre @ l # post" ?g ?h]
  show ?thesis by blast
qed

theorem geotransform_tolerance_witness:
  "find is_raster [flood] = Some flood \<and> is_raster fine_population \<and>
   check_keywords example_keywords fine_population = Inr () \<and>
   projection fine_population = wgs84 \<and>
   \<not> allclose_rtol exact_numpy (1 / 10 ^ 12) (get_geotransform flood)
       (get_geotransform fine_population) \<and>
   check_data_integrity exact_numpy example_keywords wgs84 ([flood] @ fine_population # []) =
     Inl (GeotransformMismatch (get_geotransform flood) (get_geotransform fine_population)) \<and>
   allclose_rtol exact_numpy (1 / 10 ^ 12) (get_geotransform flood)
     (get_geotransform population) \<and>
   check_layers exact_numpy example_keywords (initial_refs wgs84) ([flood] @ [population]) =
     Inr \<lparr>reference_projection = Some wgs84,
          geotransform = Some (100, 1 / 2, 0, 10, 0, - (1 / 2)), coordinates = None\<rparr>"
proof -
  have a: "find is_raster [flood] = Some flood" by (simp add: flood_def)
  have b: "is_raster fine_population" by (simp add: fine_population_def)
  have c: "check_keywords example_keywords fine_population = Inr ()"
    by (simp add: example_keywords_def fine_population_def)
  have d: "projection fine_population = wgs84" by (simp add: fine_population_def)
  have f: "\<not> allclose_rtol exact_numpy (1 / 10 ^ 12) (get_geotransform flood)
       (get_geotransform fine_population)"
    by (simp add: exact_numpy_def allclose_geotransform_def isclose_def default_atol_def
        flood_def fine_population_def)
  from geotransform_tolerance [OF flood_loop a b c d, of "[]"] f
  have g: "check_data_integrity exact_numpy example_keywords wgs84
      ([flood] @ fine_population # []) =
     Inl (GeotransformMismatch (get_geotransform flood) (get_geotransform fine_population))"
    by blast
  have b': "is_raster population" by (simp add: population_def)
  have c': "check_keywords example_keywords population = Inr ()"
    by (simp add: example_keywords_def population_def)
  have d': "projection population = wgs84" by (simp add: population_def)
  have f': "allclose_rtol exact_numpy (1 / 10 ^ 12) (get_geotransform flood)
       (get_geotransform population)"
    by (simp add: exact_numpy_def allclose_geotransform_def isclose_def default_atol_def
        flood_def population_def)
  from geotransform_tolerance [OF flood_loop a b' c' d', of "[]"] f'
  have "check_layers exact_numpy example_keywords (initial_refs wgs84) ([flood] @ [population]) =
      check_coordinates exact_numpy
        \<lparr>reference_projection = Some wgs84,
         geotransform = Some (100, 1 / 2, 0, 10, 0, - (1 / 2)), coordinates = None\<rparr> population"
    by blast
  then have h: "check_layers exact_numpy example_keywords (initial_refs wgs84)
      ([flood] @ [population]) =
     Inr \<lparr>reference_projection = Some wgs84,
          geotransform = Some (100, 1 / 2, 0, 10, 0, - (1 / 2)), coordinates = None\<rparr>"
    by (simp add: check_coordinates_def population_def)
  from a b c d f g f' h show ?thesis by blast
qed

text \<open>
  C4, as the claim states it, fails: the first components of the two geotransforms differ
  by 1e-9, which is more than 1e-12 times either of them and less than the absolute
  tolerance 1e-8 of numpy.allclose, and the list validates.
\<close>

theorem geotransform_tolerance_counterexample:
  "\<bar>100 - (100 + 1 / 10 ^ 9)\<bar> > 1 / 10 ^ 12 * \<bar>100 + 1 / 10 ^ 9 :: real\<bar> \<and>
   get_geotransform flood = (100, 1 / 2, 0, 10, 0, - (1 / 2)) \<and>
   get_geotransform shifted_population = (100 + 1 / 10 ^ 9, 1 / 2, 0, 10, 0, - (1 / 2)) \<and>
   check_data_integrity exact_numpy example_keywords wgs84 [flood, shifted_population] = Inr ()"
  by (simp add: validate_defs example_keywords_def wgs84_def flood_def shifted_population_def)

section \<open>The stages of calculate_impact\<close>

text \<open>
  C8: when \<open>check_data_integrity\<close> fails, \<open>calculate_impact\<close> fails with the same error
  and has made no call: the plugin is not instantiated, \<open>run\<close> is not called, no file
  name is generated and nothing is written.
\<close>

theorem calculate_impact_validation_error:
  "check_data_integrity np rk dp ls = Inl e \<Longrightarrow>
   calculate_impact np rk dp uf wtf ls f = ([], Inl e)"
  by (simp add: calculate_impact_def)

theorem calculate_impact_validation_error_witness:
  "check_data_integrity exact_numpy example_keywords wgs84 [flood, population_utm] =
     Inl (ProjectionMismatch ''Population'' utm48s wgs84) \<and>
   calculate_impact exact_numpy example_keywords wgs84 example_filename always_written
     [flood, population_utm] unnamed_function =
     ([], Inl (ProjectionMismatch ''Population'' utm48s wgs84))"
  using calculate_impact_validation_error [OF flood_population_utm_mismatch]
    flood_population_utm_mismatch
  by simp

text \<open>
  C7: when \<open>run\<close> returns None, \<open>calculate_impact\<close> fails; the only calls it has made are
  the instantiation of the plugin and \<open>run\<close>, so no file name is generated and
  \<open>write_to_file\<close> is not called. When the layers are valid the failure is the assertion
  that the result is not None.
\<close>

theorem calculate_impact_null_result:
  assumes "run f ls = None"
  shows "(check_data_integrity np rk dp ls = Inr () \<longrightarrow>
            calculate_impact np rk dp uf wtf ls f =
              ([Instantiate, Run], Inl (NullResult (function_str f)))) \<and>
         (\<exists>e. snd (calculate_impact np rk dp uf wtf ls f) = Inl e) \<and>
         (\<forall>ev \<in> set (fst (calculate_impact np rk dp uf wtf ls f)). ev = Instantiate \<or> ev = Run)"
  using assms by (auto simp: calculate_impact_def split: sum.splits)

theorem calculate_impact_null_result_witness:
  "run null_function [flood, population] = None \<and>
   check_data_integrity exact_numpy example_keywords wgs84 [flood, population] = Inr () \<and>
   calculate_impact exact_numpy example_keywords wgs84 example_filename always_written
     [flood, population] null_function =
     ([Instantiate, Run], Inl (NullResult ''<null function>''))"
proof -
  have r: "run null_function [flood, population] = None"
    by (simp add: null_function_def)
  from calculate_impact_null_result [OF r, of exact_numpy example_keywords wgs84 example_filename always_written]
    flood_population_valid r
  show ?thesis by (simp add: null_function_def)
qed

text \<open>
  C9, as the code has it: a call that returns a result has validated the layers, then
  instantiated the plugin and called \<open>run\<close>, then generated the file name and written the
  result, and only then, when the result had no name, set the default name. The result is
  written before it is named.
\<close>

theorem calculate_impact_stages:
  assumes "snd (calculate_impact np rk dp uf wtf ls f) = Inr F'"
  shows "check_data_integrity np rk dp ls = Inr () \<and>
     (\<exists>F0 ext. run f ls = Some F0 \<and>
        ext = (if result_is_raster F0 then ''.tif'' else ''.shp'') \<and>
        wtf (F0\<lparr>result_filename := Some (uf ext)\<rparr>) (uf ext) \<and>
        fst (calculate_impact np rk dp uf wtf ls f) =
          [Instantiate, Run, UniqueFilename ext,
           WriteToFile (uf ext) (F0\<lparr>result_filename := Some (uf ext)\<rparr>)] @
          (if name_unset (result_name F0) then [SetName (default_name_of ls f)] else []) \<and>
        F' = (if name_unset (result_name F0)
              then F0\<lparr>result_filename := Some (uf ext),
                      result_name := Some (default_name_of ls f)\<rparr>
              else F0\<lparr>result_filename := Some (uf ext)\<rparr>))"
  using assms
  by (auto simp: calculate_impact_def Let_def split: sum.splits option.splits if_splits)

theorem calculate_impact_stages_witness:
  "snd (calculate_impact exact_numpy example_keywords wgs84 example_filename always_written
          [flood, population] unnamed_function) =
     Inr \<lparr>result_is_raster = True, result_filename = Some ''impact.tif'',
          result_name = Some ''Flood X Population ''\<rparr> \<and>
   check_data_integrity exact_numpy example_keywords wgs84 [flood, population] = Inr ()"
proof -
  have r: "snd (calculate_impact exact_numpy example_keywords wgs84 example_filename always_written
          [flood, population] unnamed_function) =
     Inr \<lparr>result_is_raster = True, result_filename = Some ''impact.tif'',
          result_name = Some ''Flood X Population ''\<rparr>"
    by (simp add: calculate_impact_flood_population)
  from calculate_impact_stages [OF r] r show ?thesis by simp
qed

text \<open>
  C9, as the claim states it, fails on the two example layers: the call succeeds, and
  \<open>write_to_file\<close> is called with a result that has no name yet, before \<open>set_name\<close>.
\<close>

theorem name_after_write_counterexample:
  "fst (calculate_impact exact_numpy example_keywords wgs84 example_filename always_written
          [flood, population] unnamed_function) =
     [Instantiate, Run, UniqueFilename ''.tif'',
      WriteToFile ''impact.tif''
        \<lparr>result_is_raster = True, result_filename = Some ''impact.tif'', result_name = None\<rparr>,
      SetName ''Flood X Population '']"
  by (simp add: calculate_impact_flood_population)

section \<open>The default name\<close>

text \<open>
  C2: for the layers named Flood and Population, a plugin without \<open>plugin_name\<close> and a
  result without a name, the code sets the name to \<open>Flood X Population\<close> followed by a
  space: \<open>default_name[:-2]\<close> removes two of the three characters of the last separator.
\<close>

theorem default_name_keeps_space:
  "snd (calculate_impact exact_numpy example_keywords wgs84 example_filename always_written
          [flood, population] unnamed_function) =
     Inr \<lparr>result_is_raster = True, result_filename = Some ''impact.tif'',
          result_name = Some ''Flood X Population ''\<rparr>"
  by (simp add: calculate_impact_flood_population)

section \<open>Bounding boxes\<close>

lemma get_bounding_boxes_NotIterable:
  assumes "snd (resolve_layer rl haz_data) = Inr h" and "snd (resolve_layer rl exp_data) = Inr x"
  shows "get_bounding_boxes rl bi fmt haz_data exp_data NotIterable =
     (fst (resolve_layer rl haz_data) @ fst (resolve_layer rl exp_data), Inl InvalidBoundingBox)"
proof -
  from assms obtain c1 c2 where
    "resolve_layer rl haz_data = (c1, Inr h)" and "resolve_layer rl exp_data = (c2, Inr x)"
    by (cases "resolve_layer rl haz_data", cases "resolve_layer rl exp_data") auto
  then show ?thesis by (simp add: get_bounding_boxes_def)
qed

lemma get_bounding_boxes_Sequence:
  assumes "snd (resolve_layer rl haz_data) = Inr h" and "snd (resolve_layer rl exp_data) = Inr x"
  shows "get_bounding_boxes rl bi fmt haz_data exp_data (Sequence vpt) =
     (fst (resolve_layer rl haz_data) @ fst (resolve_layer rl exp_data) @
        [BboxIntersection vpt (get_bounding_box h) (get_bounding_box x)],
      case bi vpt (get_bounding_box h) (get_bounding_box x) of
        Inl e \<Rightarrow> Inl e
      | Inr None \<Rightarrow>
          Inl (OverlapError (overlap_message (fmt (get_bounding_box h))
                 (fmt (get_bounding_box x)) (fmt vpt)))
      | Inr (Some b) \<Rightarrow> Inr (b, None))"
proof -
  from assms obtain c1 c2 where
    "resolve_layer rl haz_data = (c1, Inr h)" and "resolve_layer rl exp_data = (c2, Inr x)"
    by (cases "resolve_layer rl haz_data", cases "resolve_layer rl exp_data") auto
  then show ?thesis
    by (simp add: get_bounding_boxes_def Let_def split: sum.splits option.splits)
qed

lemma resolve_layer_calls:
  "c \<in> set (fst (resolve_layer rl d)) \<Longrightarrow> \<exists>fn. c = ReadLayer fn"
  by (auto simp: resolve_layer_def split: layer_data.splits sum.splits if_splits)

text \<open>
  C5, as the code has it. With hazard and exposure resolved to spatial objects,
  \<open>get_bounding_boxes\<close> raises its invalid-bounding-box exception exactly when
  \<open>list(req_bbox)\<close> raises, that is, when the argument is not iterable; it has then called
  nothing but \<open>read_layer\<close>. A sequence of any length is passed to \<open>bbox_intersection\<close>,
  and the outcome is what that call gives. (The intersection is assumed not to raise the
  exception of \<open>get_bounding_boxes\<close> itself.)
\<close>

theorem invalid_bounding_box:
  assumes "snd (resolve_layer rl haz_data) = Inr h" and "snd (resolve_layer rl exp_data) = Inr x"
    and "\<forall>a b c. bi a b c \<noteq> Inl InvalidBoundingBox"
  shows "(snd (get_bounding_boxes rl bi fmt haz_data exp_data req) = Inl InvalidBoundingBox
            \<longleftrightarrow> req = NotIterable) \<and>
         (req = NotIterable \<longrightarrow>
            (\<forall>c \<in> set (fst (get_bounding_boxes rl bi fmt haz_data exp_data req)).
               \<exists>fn. c = ReadLayer fn)) \<and>
         (\<forall>vpt. req = Sequence vpt \<longrightarrow>
            BboxIntersection vpt (get_bounding_box h) (get_bounding_box x)
              \<in> set (fst (get_bounding_boxes rl bi fmt haz_data exp_data req)) \<and>
            snd (get_bounding_boxes rl bi fmt haz_data exp_data req) =
              (case bi vpt (get_bounding_box h) (get_bounding_box x) of
                 Inl e \<Rightarrow> Inl e
               | Inr None \<Rightarrow>
                   Inl (OverlapError (overlap_message (fmt (get_bounding_box h))
                          (fmt (get_bounding_box x)) (fmt vpt)))
               | Inr (Some b) \<Rightarrow> Inr (b, None)))"
proof (cases req)
  case NotIterable
  with get_bounding_boxes_NotIterable [OF assms(1,2), of bi fmt] resolve_layer_calls [of _ rl]
  show ?thesis by auto
next
  case (Sequence vpt)
  with get_bounding_boxes_Sequence [OF assms(1,2), of bi fmt vpt] assms(3)
  show ?thesis by (auto split: sum.splits option.splits)
qed

lemma bbox_intersection_error:
  "bbox_intersection a b c = Inl e \<Longrightarrow> e = IndexError"
  by (auto simp: bbox_intersection_def Let_def split: option.splits prod.splits if_splits)

lemma resolve_far_hazard: "snd (resolve_layer no_files (Object far_hazard)) = Inr far_hazard"
  by (simp add: resolve_layer_def far_hazard_def)

lemma resolve_exposure_object:
  "snd (resolve_layer no_files (Object exposure_object)) = Inr exposure_object"
  by (simp add: resolve_layer_def exposure_object_def)

theorem invalid_bounding_box_witness:
  "snd (resolve_layer no_files (Object far_hazard)) = Inr far_hazard \<and>
   snd (resolve_layer no_files (Object exposure_object)) = Inr exposure_object \<and>
   snd (get_bounding_boxes no_files bbox_intersection example_bboxlist2string
          (Object far_hazard) (Object exposure_object) NotIterable) = Inl InvalidBoundingBox \<and>
   BboxIntersection [0, 0, 1, 1] [5, 5, 6, 6] [4, 4, 12, 12]
     \<in> set (fst (get_bounding_boxes no_files bbox_intersection example_bboxlist2string
          (Object far_hazard) (Object exposure_object) (Sequence [0, 0, 1, 1])))"
proof -
  have p: "\<forall>a b c. (bbox_intersection a b c :: (string, geotransform, geometry) error + real list option)
      \<noteq> Inl InvalidBoundingBox"
    using bbox_intersection_error by fastforce
  note t = invalid_bounding_box [OF resolve_far_hazard resolve_exposure_object p]
  from t [of example_bboxlist2string NotIterable]
    t [of example_bboxlist2string "Sequence [0, 0, 1, 1]"]
    resolve_far_hazard resolve_exposure_object
  show ?thesis by (simp add: far_hazard_def exposure_object_def)
qed

text \<open>
  C5, as the claim states it, fails on a sequence of three numbers: it is not rejected by
  \<open>get_bounding_boxes\<close>, which calls \<open>bbox_intersection\<close> with it.
\<close>

theorem invalid_bounding_box_counterexample:
  "fst (get_bounding_boxes no_files bbox_intersection example_bboxlist2string
          (Object far_hazard) (Object exposure_object) (Sequence [0, 0, 10])) =
     [BboxIntersection [0, 0, 10] [5, 5, 6, 6] [4, 4, 12, 12]] \<and>
   snd (get_bounding_boxes no_files bbox_intersection example_bboxlist2string
          (Object far_hazard) (Object exposure_object) (Sequence [0, 0, 10])) \<noteq>
     Inl InvalidBoundingBox"
  by (simp add: get_bounding_boxes_def resolve_layer_def far_hazard_def exposure_object_def
      bbox_intersection_def)


lemma overlap_message_contains:
  "(\<exists>p q. overlap_message haz expo vpt = p @ haz @ q) \<and>
   (\<exists>p q. overlap_message haz expo vpt = p @ expo @ q) \<and>
   (\<exists>p q. overlap_message haz expo vpt = p @ vpt @ q)"
proof (intro conjI)
  show "\<exists>p q. overlap_message haz expo vpt = p @ haz @ q"
    unfolding overlap_message_def by blast
  show "\<exists>p q. overlap_message haz expo vpt = p @ expo @ q"
    unfolding overlap_message_def by (metis append.assoc)
  show "\<exists>p q. overlap_message haz expo vpt = p @ vpt @ q"
    unfolding overlap_message_def by (metis append.assoc)
qed

lemma bbox_intersection_far:
  assumes "box4 c \<noteq> None"
  shows "bbox_intersection [0, 0, 1, 1] [5, 5, 6, 6] c = Inr None"
proof -
  from assms obtain w s e n where "box4 c = Some (w, s, e, n)" by auto
  moreover have "min 1 (min 6 e) \<le> max 5 w" by (simp add: min_def max_def)
  ultimately show ?thesis by (simp add: bbox_intersection_def Let_def)
qed

text \<open>
  C6: with hazard and exposure resolved to spatial objects, whenever \<open>bbox_intersection\<close>
  returns None for the viewport, the hazard box and the exposure box,
  \<open>get_bounding_boxes\<close> fails with the no-overlap exception, and its message contains the
  strings of \<open>bboxlist2string\<close> for the three boxes. With the intersection of the
  specification, the viewport [0, 0, 1, 1] and the hazard box [5, 5, 6, 6] give that
  failure for every exposure box of four coordinates.
\<close>

theorem no_overlap_error:
  assumes "snd (resolve_layer rl haz_data) = Inr h" and "snd (resolve_layer rl exp_data) = Inr x"
  shows "(bi vpt (get_bounding_box h) (get_bounding_box x) = Inr None \<longrightarrow>
            (\<exists>msg. snd (get_bounding_boxes rl bi fmt haz_data exp_data (Sequence vpt)) =
                 Inl (OverlapError msg) \<and>
               (\<exists>p q. msg = p @ fmt (get_bounding_box h) @ q) \<and>
               (\<exists>p q. msg = p @ fmt (get_bounding_box x) @ q) \<and>
               (\<exists>p q. msg = p @ fmt vpt @ q))) \<and>
         (get_bounding_box h = [5, 5, 6, 6] \<and> box4 (get_bounding_box x) \<noteq> None \<longrightarrow>
            (\<exists>msg. snd (get_bounding_boxes rl bbox_intersection fmt haz_data exp_data
                          (Sequence [0, 0, 1, 1])) = Inl (OverlapError msg)))"
proof (intro conjI impI)
  assume "bi vpt (get_bounding_box h) (get_bounding_box x) = Inr None"
  with get_bounding_boxes_Sequence [OF assms, of bi fmt vpt]
  have "snd (get_bounding_boxes rl bi fmt haz_data exp_data (Sequence vpt)) =
      Inl (OverlapError (overlap_message (fmt (get_bounding_box h))
             (fmt (get_bounding_box x)) (fmt vpt)))"
    by simp
  with overlap_message_contains [of "fmt (get_bounding_box h)" "fmt (get_bounding_box x)" "fmt vpt"]
  show "\<exists>msg. snd (get_bounding_boxes rl bi fmt haz_data exp_data (Sequence vpt)) =
                 Inl (OverlapError msg) \<and>
               (\<exists>p q. msg = p @ fmt (get_bounding_box h) @ q) \<and>
               (\<exists>p q. msg = p @ fmt (get_bounding_box x) @ q) \<and>
               (\<exists>p q. msg = p @ fmt vpt @ q)"
    by blast
next
  assume a: "get_bounding_box h = [5, 5, 6, 6] \<and> box4 (get_bounding_box x) \<noteq> None"
  then have "bbox_intersection [0, 0, 1, 1] (get_bounding_box h) (get_bounding_box x) =
      (Inr None :: ('a, 'b, 'c) error + real list option)"
    using bbox_intersection_far [of "get_bounding_box x"] by simp
  with get_bounding_boxes_Sequence [OF assms, of bbox_intersection fmt "[0, 0, 1, 1]"]
  show "\<exists>msg. snd (get_bounding_boxes rl bbox_intersection fmt haz_data exp_data
                          (Sequence [0, 0, 1, 1])) = Inl (OverlapError msg)"
    by simp
qed

theorem no_overlap_error_witness:
  "snd (resolve_layer no_files (Object far_hazard)) = Inr far_hazard \<and>
   snd (resolve_layer no_files (Object exposure_object)) = Inr exposure_object \<and>
   (bbox_intersection [0, 0, 1, 1] (get_bounding_box far_hazard)
      (get_bounding_box exposure_object) :: (string, geotransform, geometry) error + real list option) = Inr None \<and>
   get_bounding_box far_hazard = [5, 5, 6, 6] \<and>
   box4 (get_bounding_box exposure_object) \<noteq> None \<and>
   (\<exists>msg. snd (get_bounding_boxes no_files bbox_intersection example_bboxlist2string
                 (Object far_hazard) (Object exposure_object) (Sequence [0, 0, 1, 1])) =
             Inl (OverlapError msg) \<and>
           (\<exists>p q. msg = p @ ''5.000,5.000,6.000,6.000'' @ q) \<and>
           (\<exists>p q. msg = p @ ''4.000,4.000,12.000,12.000'' @ q) \<and>
           (\<exists>p q. msg = p @ ''0.000,0.000,1.000,1.000'' @ q))"
proof -
  have a: "get_bounding_box far_hazard = [5, 5, 6, 6]" by (simp add: far_hazard_def)
  have b: "box4 (get_bounding_box exposure_object) \<noteq> None" by (simp add: exposure_object_def)
  have c: "(bbox_intersection [0, 0, 1, 1] (get_bounding_box far_hazard)
      (get_bounding_box exposure_object) :: (string, geotransform, geometry) error + real list option) = Inr None"
    by (simp add: far_hazard_def exposure_object_def bbox_intersection_def)
  have f: "example_bboxlist2string (get_bounding_box far_hazard) = ''5.000,5.000,6.000,6.000''"
    "example_bboxlist2string (get_bounding_box exposure_object) = ''4.000,4.000,12.000,12.000''"
    "example_bboxlist2string [0, 0, 1, 1] = ''0.000,0.000,1.000,1.000''"
    by (simp_all add: example_bboxlist2string_def far_hazard_def exposure_object_def)
  from no_overlap_error [OF resolve_far_hazard resolve_exposure_object,
      of bbox_intersection "[0, 0, 1, 1]" example_bboxlist2string] c
  have "\<exists>msg. snd (get_bounding_boxes no_files bbox_intersection example_bboxlist2string
                 (Object far_hazard) (Object exposure_object) (Sequence [0, 0, 1, 1])) =
             Inl (OverlapError msg) \<and>
           (\<exists>p q. msg = p @ example_bboxlist2string (get_bounding_box far_hazard) @ q) \<and>
           (\<exists>p q. msg = p @ example_bboxlist2string (get_bounding_box exposure_object) @ q) \<and>
           (\<exists>p q. msg = p @ example_bboxlist2string [0, 0, 1, 1] @ q)"
    by blast
  then have "\<exists>msg. snd (get_bounding_boxes no_files bbox_intersection example_bboxlist2string
                 (Object far_hazard) (Object exposure_object) (Sequence [0, 0, 1, 1])) =
             Inl (OverlapError msg) \<and>
           (\<exists>p q. msg = p @ ''5.000,5.000,6.000,6.000'' @ q) \<and>
           (\<exists>p q. msg = p @ ''4.000,4.000,12.000,12.000'' @ q) \<and>
           (\<exists>p q. msg = p @ ''0.000,0.000,1.000,1.000'' @ q)"
    unfolding f .
  with resolve_far_hazard resolve_exposure_object a b c show ?thesis by blast
qed

end
